theory Spec2Isabelle
  imports Complex_Main "HOL-Library.Word"
begin

section \<open>Configuration of the unified stream system\<close>

text \<open>
  The enumerations and the configuration dataclass of \<^verbatim>\<open>stream_unified.py\<close>.
  Python integers are unbounded, so every integer field is an \<^typ>\<open>int\<close>.
\<close>

datatype MovementMode = FINE | NORMAL | FAST | TURBO

datatype OverlayMode = NONE | MINIMAL | STANDARD | FULL | DEBUG

text \<open>The \<^verbatim>\<open>.value\<close> of each enumeration member.\<close>

fun movement_value :: "MovementMode \<Rightarrow> int" where
  "movement_value FINE = 1"
| "movement_value NORMAL = 5"
| "movement_value FAST = 10"
| "movement_value TURBO = 20"

fun overlay_value :: "OverlayMode \<Rightarrow> int" where
  "overlay_value NONE = 0"
| "overlay_value MINIMAL = 1"
| "overlay_value STANDARD = 2"
| "overlay_value FULL = 3"
| "overlay_value DEBUG = 4"

record StreamConfig =
  x :: int
  y :: int
  width :: int
  height :: int
  overlay_mode :: OverlayMode
  movement_mode :: MovementMode
  auto_save :: bool
  config_file :: string

text \<open>\<^verbatim>\<open>StreamConfig()\<close>: the dataclass defaults.\<close>

definition default_config :: StreamConfig where
  "default_config =
     \<lparr>x = 40, y = 330, width = 340, height = 230,
      overlay_mode = STANDARD, movement_mode = NORMAL,
      auto_save = True, config_file = ''stream_config.json''\<rparr>"

section \<open>Movement controller\<close>

text \<open>
  The dictionary \<^verbatim>\<open>self.movement_speeds\<close> built in the constructor; it has an entry
  for every member of the enumeration, so the lookup never raises.
\<close>

fun movement_speeds :: "MovementMode \<Rightarrow> int" where
  "movement_speeds FINE = 1"
| "movement_speeds NORMAL = 5"
| "movement_speeds FAST = 10"
| "movement_speeds TURBO = 20"

text \<open>
  The controller mutates the shared configuration; the model takes the configuration and
  returns the updated one. The first update of \<^verbatim>\<open>move\<close> does not touch the movement mode,
  so both lines read the same multiplier.
\<close>

definition move :: "int \<Rightarrow> int \<Rightarrow> bool \<Rightarrow> StreamConfig \<Rightarrow> StreamConfig" where
  "move dx dy relative c =
     (if relative then
        (let c1 = c\<lparr>x := x c + dx * movement_speeds (movement_mode c)\<rparr>
         in c1\<lparr>y := y c1 + dy * movement_speeds (movement_mode c1)\<rparr>)
      else
        (let c1 = c\<lparr>x := dx\<rparr> in c1\<lparr>y := dy\<rparr>))"

definition resize :: "int \<Rightarrow> int \<Rightarrow> StreamConfig \<Rightarrow> StreamConfig" where
  "resize dw dh c =
     (let c1 = c\<lparr>width := max 50 (width c + dw)\<rparr>
      in c1\<lparr>height := max 50 (height c1 + dh)\<rparr>)"

definition reset :: "StreamConfig \<Rightarrow> StreamConfig" where
  "reset c =
     (let c1 = c\<lparr>x := 40\<rparr>;
          c2 = c1\<lparr>y := 330\<rparr>;
          c3 = c2\<lparr>width := 340\<rparr>
      in c3\<lparr>height := 230\<rparr>)"

text \<open>A sequence of \<^verbatim>\<open>resize\<close> calls, given as the list of their \<open>(dw, dh)\<close> arguments.\<close>

fun resize_all :: "(int \<times> int) list \<Rightarrow> StreamConfig \<Rightarrow> StreamConfig" where
  "resize_all [] c = c"
| "resize_all (d # ds) c = resize_all ds (resize (fst d) (snd d) c)"


section \<open>Frames\<close>

text \<open>
  A frame is a NumPy array of shape \<open>(rows, columns, 3)\<close> with 8-bit channels. The model
  keeps the first two components of \<^verbatim>\<open>.shape\<close> beside the pixel rows, because an array
  with no rows still has a column count. Every array built below satisfies \<open>wf_array\<close>.
\<close>

type_synonym pixel = "8 word \<times> 8 word \<times> 8 word"

record ndarray =
  shape0 :: nat
  shape1 :: nat
  rows :: "pixel list list"

definition wf_array :: "ndarray \<Rightarrow> bool" where
  "wf_array a \<longleftrightarrow>
     length (rows a) = shape0 a \<and> list_all (\<lambda>r. length r = shape1 a) (rows a)"

definition black :: pixel where
  "black = (0, 0, 0)"

datatype error = ValueError

text \<open>
  The bounds of a slice \<^verbatim>\<open>a[lo:hi]\<close> over an axis of length \<open>n\<close>, as Python and NumPy
  adjust them: a negative bound counts from the end, and every bound is clipped to
  \<open>0..n\<close>. The slice is empty when the adjusted stop is not after the adjusted start
  (the subtraction on \<^typ>\<open>nat\<close> truncates at 0, which is that case).
\<close>

definition slice_index :: "nat \<Rightarrow> int \<Rightarrow> nat" where
  "slice_index n i = (if i < 0 then nat (max 0 (i + int n)) else min (nat i) n)"

definition py_slice :: "int \<Rightarrow> int \<Rightarrow> 'a list \<Rightarrow> 'a list" where
  "py_slice lo hi xs =
     (let s = slice_index (length xs) lo;
          e = slice_index (length xs) hi
      in take (e - s) (drop s xs))"

text \<open>\<^verbatim>\<open>a[y1:y2, x1:x2]\<close>\<close>

definition slice2 :: "int \<Rightarrow> int \<Rightarrow> int \<Rightarrow> int \<Rightarrow> ndarray \<Rightarrow> ndarray" where
  "slice2 y1 y2 x1 x2 a =
     \<lparr>shape0 = slice_index (shape0 a) y2 - slice_index (shape0 a) y1,
      shape1 = slice_index (shape1 a) x2 - slice_index (shape1 a) x1,
      rows = map (py_slice x1 x2) (py_slice y1 y2 (rows a))\<rparr>"

text \<open>\<^verbatim>\<open>np.zeros((h, w, 3), dtype=np.uint8)\<close>; a negative dimension raises.\<close>

definition np_zeros :: "int \<Rightarrow> int \<Rightarrow> error + ndarray" where
  "np_zeros h w =
     (if h < 0 \<or> w < 0 then Inl ValueError
      else Inr \<lparr>shape0 = nat h, shape1 = nat w,
                rows = replicate (nat h) (replicate (nat w) black)\<rparr>)"

text \<open>
  \<^verbatim>\<open>padded[:stream.shape[0], :stream.shape[1]] = stream\<close>. The target of the assignment is
  clipped to the shape of \<^verbatim>\<open>padded\<close>; NumPy accepts the value when, on each axis, its
  extent equals the target's or is 1 (broadcasting), and raises otherwise. Where it is
  accepted, the target is either as large as the value or empty, so the rows written
  are the leading \<open>t0\<close> rows of the value cut to \<open>t1\<close> columns.
\<close>

definition assign_top_left :: "ndarray \<Rightarrow> ndarray \<Rightarrow> error + ndarray" where
  "assign_top_left padded stream =
     (let t0 = min (shape0 stream) (shape0 padded);
          t1 = min (shape1 stream) (shape1 padded)
      in if (shape0 stream = t0 \<or> shape0 stream = 1) \<and> (shape1 stream = t1 \<or> shape1 stream = 1)
         then Inr (padded\<lparr>rows :=
                 map (\<lambda>(s, p). take t1 s @ drop t1 p)
                     (zip (take t0 (rows stream)) (take t0 (rows padded)))
                 @ drop t0 (rows padded)\<rparr>)
         else Inl ValueError)"

section \<open>Region extraction\<close>

text \<open>
  \<^verbatim>\<open>StreamCapture._extract_region\<close>. The result is the returned array, or the exception
  that the call raises.
\<close>

definition extract_region :: "StreamConfig \<Rightarrow> ndarray \<Rightarrow> error + ndarray" where
  "extract_region c frame =
     (let y1 = max 0 (y c);
          y2 = min (int (shape0 frame)) (y c + height c);
          x1 = max 0 (x c);
          x2 = min (int (shape1 frame)) (x c + width c);
          stream = slice2 y1 y2 x1 x2 frame
      in if int (shape0 stream) < height c \<or> int (shape1 stream) < width c
         then (case np_zeros (height c) (width c) of
                 Inl e \<Rightarrow> Inl e
               | Inr padded \<Rightarrow> assign_top_left padded stream)
         else Inr stream)"

text \<open>
  The reference result, in the words of the specification: a black buffer of the
  requested size whose top-left corner holds the pixels of the intersection of the
  region with the frame bounds.
\<close>

definition spec_extract :: "StreamConfig \<Rightarrow> ndarray \<Rightarrow> ndarray" where
  "spec_extract c frame =
     (let iy1 = max 0 (y c);
          iy2 = min (int (shape0 frame)) (y c + height c);
          ix1 = max 0 (x c);
          ix2 = min (int (shape1 frame)) (x c + width c);
          ih = nat (iy2 - iy1);
          iw = nat (ix2 - ix1)
      in \<lparr>shape0 = nat (height c), shape1 = nat (width c),
          rows = map (\<lambda>i. map (\<lambda>j. if i < ih \<and> j < iw
                                     then rows frame ! (nat iy1 + i) ! (nat ix1 + j)
                                     else black)
                              [0 ..< nat (width c)])
                     [0 ..< nat (height c)]\<rparr>)"

section \<open>The frame hand-off buffer\<close>

text \<open>
  \<^verbatim>\<open>queue.Queue\<close> of the standard library, in a single thread of control. A bound
  \<open>maxsize \<le> 0\<close> means no bound. The blocking calls \<^verbatim>\<open>get()\<close> and \<^verbatim>\<open>put()\<close> wait for
  another thread when the queue is empty or full; alone they would wait forever, which
  is the result \<open>None\<close>. \<^verbatim>\<open>get_nowait()\<close> raises \<^verbatim>\<open>queue.Empty\<close> instead of waiting.
\<close>

record 'a Queue =
  maxsize :: int
  items :: "'a list"

datatype queue_error = Empty

definition queue_full :: "'a Queue \<Rightarrow> bool" where
  "queue_full q \<longleftrightarrow> 0 < maxsize q \<and> maxsize q \<le> int (length (items q))"

definition queue_get :: "'a Queue \<Rightarrow> ('a \<times> 'a Queue) option" where
  "queue_get q =
     (case items q of
        [] \<Rightarrow> None
      | f # fs \<Rightarrow> Some (f, q\<lparr>items := fs\<rparr>))"

definition queue_put :: "'a \<Rightarrow> 'a Queue \<Rightarrow> 'a Queue option" where
  "queue_put f q = (if queue_full q then None else Some (q\<lparr>items := items q @ [f]\<rparr>))"

definition queue_get_nowait :: "'a Queue \<Rightarrow> queue_error + ('a \<times> 'a Queue)" where
  "queue_get_nowait q =
     (case items q of
        [] \<Rightarrow> Inl Empty
      | f # fs \<Rightarrow> Inr (f, q\<lparr>items := fs\<rparr>))"

text \<open>\<^verbatim>\<open>self.frame_queue = queue.Queue(maxsize=30)\<close> in the constructor.\<close>

definition new_frame_queue :: "'a Queue" where
  "new_frame_queue = \<lparr>maxsize = 30, items = []\<rparr>"

text \<open>
  The hand-off at the end of one pass of \<^verbatim>\<open>_capture_loop\<close>:
  \<^verbatim>\<open>if self.frame_queue.full(): self.frame_queue.get()\<close> and then \<^verbatim>\<open>put(stream)\<close>.
\<close>

definition publish :: "'a \<Rightarrow> 'a Queue \<Rightarrow> 'a Queue option" where
  "publish stream q =
     (case (if queue_full q then map_option snd (queue_get q) else Some q) of
        None \<Rightarrow> None
      | Some q1 \<Rightarrow> queue_put stream q1)"

text \<open>
  One pass of the loop body on the converted screenshot: an exception of the extraction
  is caught and logged, and the queue stays as it was.
\<close>

definition capture_pass :: "StreamConfig \<Rightarrow> ndarray \<Rightarrow> ndarray Queue \<Rightarrow> ndarray Queue option" where
  "capture_pass c frame q =
     (case extract_region c frame of
        Inl e \<Rightarrow> Some q
      | Inr stream \<Rightarrow> publish stream q)"

text \<open>\<^verbatim>\<open>StreamCapture.get_frame\<close>: the frame handed out, if any, and the queue afterwards.\<close>

definition get_frame :: "'a Queue \<Rightarrow> 'a option \<times> 'a Queue" where
  "get_frame q =
     (case queue_get_nowait q of
        Inl Empty \<Rightarrow> (None, q)
      | Inr (f, q') \<Rightarrow> (Some f, q'))"

text \<open>A producer run that publishes the given frames in order, and \<open>n\<close> successive polls.\<close>

fun publish_all :: "'a list \<Rightarrow> 'a Queue \<Rightarrow> 'a Queue option" where
  "publish_all [] q = Some q"
| "publish_all (f # fs) q =
     (case publish f q of None \<Rightarrow> None | Some q' \<Rightarrow> publish_all fs q')"

fun poll :: "nat \<Rightarrow> 'a Queue \<Rightarrow> 'a option list \<times> 'a Queue" where
  "poll 0 q = ([], q)"
| "poll (Suc n) q =
     (case get_frame q of (r, q') \<Rightarrow> (case poll n q' of (rs, q'') \<Rightarrow> (r # rs, q'')))"


section \<open>Configuration persistence\<close>

text \<open>
  The file store seen by \<^verbatim>\<open>ConfigManager\<close>: a path either does not exist or holds a
  document. \<^verbatim>\<open>json.dump\<close> and \<^verbatim>\<open>json.load\<close> belong to the standard library; the model
  keeps the parsed value in place of the text. A \<open>Record\<close> is a JSON object whose fields
  hold integers, as every record written by \<^verbatim>\<open>save\<close> does. \<open>Unreadable\<close> stands for a file
  on which \<^verbatim>\<open>open\<close> or \<^verbatim>\<open>json.load\<close> raises, or whose JSON value is not an object (then
  \<^verbatim>\<open>data.get\<close> raises): in each case the \<^verbatim>\<open>except\<close> clause is reached before any field is
  assigned. Writing a file is taken to succeed.
\<close>

datatype document = Unreadable | Record "string \<rightharpoonup> int"

type_synonym filesystem = "string \<rightharpoonup> document"

text \<open>\<^verbatim>\<open>data.get(key, default)\<close>\<close>

definition dict_get :: "(string \<rightharpoonup> int) \<Rightarrow> string \<Rightarrow> int \<Rightarrow> int" where
  "dict_get data k d = (case data k of None \<Rightarrow> d | Some v \<Rightarrow> v)"

text \<open>
  Calling an enumeration class on a value looks the member up and raises \<^verbatim>\<open>ValueError\<close>
  when there is none.
\<close>

definition OverlayMode_of :: "int \<Rightarrow> error + OverlayMode" where
  "OverlayMode_of v =
     (if v = 0 then Inr NONE
      else if v = 1 then Inr MINIMAL
      else if v = 2 then Inr STANDARD
      else if v = 3 then Inr FULL
      else if v = 4 then Inr DEBUG
      else Inl ValueError)"

definition MovementMode_of :: "int \<Rightarrow> error + MovementMode" where
  "MovementMode_of v =
     (if v = 1 then Inr FINE
      else if v = 5 then Inr NORMAL
      else if v = 10 then Inr FAST
      else if v = 20 then Inr TURBO
      else Inl ValueError)"

definition save :: "StreamConfig \<Rightarrow> filesystem \<Rightarrow> filesystem" where
  "save c fs =
     (let data = [''x'' \<mapsto> x c,
                  ''y'' \<mapsto> y c,
                  ''width'' \<mapsto> width c,
                  ''height'' \<mapsto> height c,
                  ''overlay_mode'' \<mapsto> overlay_value (overlay_mode c),
                  ''movement_mode'' \<mapsto> movement_value (movement_mode c)]
      in fs(config_file c \<mapsto> Record data))"

text \<open>
  \<^verbatim>\<open>ConfigManager.load\<close>: the returned flag and the configuration afterwards. The fields
  are assigned one after the other inside the \<^verbatim>\<open>try\<close> block, so an exception raised by a
  later line leaves the earlier assignments in place.
\<close>

definition load :: "filesystem \<Rightarrow> StreamConfig \<Rightarrow> bool \<times> StreamConfig" where
  "load fs c =
     (case fs (config_file c) of
        None \<Rightarrow> (False, c)
      | Some Unreadable \<Rightarrow> (False, c)
      | Some (Record data) \<Rightarrow>
          (let c1 = c\<lparr>x := dict_get data ''x'' (x c)\<rparr>;
               c2 = c1\<lparr>y := dict_get data ''y'' (y c1)\<rparr>;
               c3 = c2\<lparr>width := dict_get data ''width'' (width c2)\<rparr>;
               c4 = c3\<lparr>height := dict_get data ''height'' (height c3)\<rparr>
           in case OverlayMode_of (dict_get data ''overlay_mode'' 2) of
                Inl e \<Rightarrow> (False, c4)
              | Inr om \<Rightarrow>
                  (let c5 = c4\<lparr>overlay_mode := om\<rparr>
                   in case MovementMode_of (dict_get data ''movement_mode'' 5) of
                        Inl e \<Rightarrow> (False, c5)
                      | Inr mm \<Rightarrow> (True, c5\<lparr>movement_mode := mm\<rparr>))))"

section \<open>Overlay renderer\<close>

text \<open>
  The renderer draws through OpenCV and asks \<^verbatim>\<open>pyautogui\<close> for the screen size. Both are
  outside the repository, so they are a parameter of the model: one function for each
  drawing routine used, returning the frame it has drawn on, and the screen size.
  The floating-point arguments (blending weights, font scales) are only handed on to
  these routines; they appear as the decimal fractions written in the source.
\<close>

type_synonym point = "int \<times> int"

type_synonym colour = "int \<times> int \<times> int"

datatype font = FONT_HERSHEY_SIMPLEX

record backend =
  cv_rectangle :: "ndarray \<Rightarrow> point \<Rightarrow> point \<Rightarrow> colour \<Rightarrow> int \<Rightarrow> ndarray"
  cv_line :: "ndarray \<Rightarrow> point \<Rightarrow> point \<Rightarrow> colour \<Rightarrow> int \<Rightarrow> ndarray"
  cv_circle :: "ndarray \<Rightarrow> point \<Rightarrow> int \<Rightarrow> colour \<Rightarrow> int \<Rightarrow> ndarray"
  cv_putText :: "ndarray \<Rightarrow> string \<Rightarrow> point \<Rightarrow> font \<Rightarrow> real \<Rightarrow> colour \<Rightarrow> int \<Rightarrow> ndarray"
  cv_addWeighted :: "ndarray \<Rightarrow> real \<Rightarrow> ndarray \<Rightarrow> real \<Rightarrow> real \<Rightarrow> ndarray"
  screen_size :: "int \<times> int"

text \<open>The colour table \<^verbatim>\<open>self.colors\<close>.\<close>

definition border_normal :: colour where "border_normal = (0, 255, 0)"
definition border_edge :: colour where "border_edge = (0, 0, 255)"
definition grid :: colour where "grid = (128, 128, 128)"
definition crosshair :: colour where "crosshair = (0, 255, 255)"
definition corner :: colour where "corner = (255, 255, 0)"
definition text_colour :: colour where "text_colour = (0, 255, 0)"

text \<open>\<^verbatim>\<open>str\<close> of an integer, for the formatted labels, and the \<^verbatim>\<open>.name\<close> of a movement mode.\<close>

fun digits :: "nat \<Rightarrow> string" where
  "digits n =
     (if n < 10 then [char_of (n + 48)]
      else digits (n div 10) @ [char_of (n mod 10 + 48)])"

definition py_str :: "int \<Rightarrow> string" where
  "py_str i = (if i < 0 then CHR ''-'' # digits (nat (- i)) else digits (nat i))"

fun movement_name :: "MovementMode \<Rightarrow> string" where
  "movement_name FINE = ''FINE''"
| "movement_name NORMAL = ''NORMAL''"
| "movement_name FAST = ''FAST''"
| "movement_name TURBO = ''TURBO''"

text \<open>One pass of the loop over the four corners in \<^verbatim>\<open>_draw_border\<close>.\<close>

definition draw_corner :: "backend \<Rightarrow> point \<Rightarrow> ndarray \<Rightarrow> ndarray" where
  "draw_corner B p frame =
     (let px = fst p;
          py = snd p;
          dx = (if px = 0 then 1 else - 1);
          dy = (if py = 0 then 1 else - 1);
          f1 = cv_line B frame (px, py) (px + dx * 20, py) corner 3
      in cv_line B f1 (px, py) (px, py + dy * 20) corner 3)"

definition draw_border :: "backend \<Rightarrow> StreamConfig \<Rightarrow> ndarray \<Rightarrow> ndarray" where
  "draw_border B c frame =
     (let h = int (shape0 frame);
          w = int (shape1 frame);
          screen_w = fst (screen_size B);
          screen_h = snd (screen_size B);
          at_edge = (y c \<le> 0 \<or> x c \<le> 0 \<or>
                     y c + height c \<ge> screen_h \<or>
                     x c + width c \<ge> screen_w);
          color = (if at_edge then border_edge else border_normal);
          f1 = cv_rectangle B frame (0, 0) (w - 1, h - 1) color 2
      in fold (draw_corner B) [(0, 0), (w - 1, 0), (0, h - 1), (w - 1, h - 1)] f1)"

definition draw_info :: "backend \<Rightarrow> StreamConfig \<Rightarrow> ndarray \<Rightarrow> ndarray" where
  "draw_info B c frame =
     (let overlay = cv_rectangle B frame (5, 5) (250, 65) (0, 0, 0) (- 1);
          f1 = cv_addWeighted B frame (8 / 10) overlay (2 / 10) 0;
          f2 = cv_putText B f1 (''Pos: ('' @ py_str (x c) @ '', '' @ py_str (y c) @ '')'')
                 (10, 25) FONT_HERSHEY_SIMPLEX (5 / 10) text_colour 1;
          f3 = cv_putText B f2 (''Size: '' @ py_str (width c) @ ''x'' @ py_str (height c))
                 (10, 45) FONT_HERSHEY_SIMPLEX (5 / 10) text_colour 1
      in cv_putText B f3 (''Mode: '' @ movement_name (movement_mode c))
           (10, 60) FONT_HERSHEY_SIMPLEX (4 / 10) text_colour 1)"

text \<open>
  One pass of the loop over \<^verbatim>\<open>range(1, 3)\<close> in \<^verbatim>\<open>_draw_guides\<close>. \<^verbatim>\<open>int(w * i / 3)\<close> is
  the integer quotient for the non-negative sizes of a frame.
\<close>

definition draw_grid_lines :: "backend \<Rightarrow> int \<Rightarrow> int \<Rightarrow> int \<Rightarrow> ndarray \<Rightarrow> ndarray" where
  "draw_grid_lines B h w i frame =
     (let gx = (w * i) div 3;
          gy = (h * i) div 3;
          f1 = cv_line B frame (gx, 0) (gx, h) grid 1
      in cv_line B f1 (0, gy) (w, gy) grid 1)"

definition draw_guides :: "backend \<Rightarrow> ndarray \<Rightarrow> ndarray" where
  "draw_guides B frame =
     (let h = int (shape0 frame);
          w = int (shape1 frame);
          f1 = fold (draw_grid_lines B h w) [1, 2] frame;
          cx = w div 2;
          cy = h div 2;
          f2 = cv_line B f1 (cx - 15, cy) (cx + 15, cy) crosshair 1;
          f3 = cv_line B f2 (cx, cy - 15) (cx, cy + 15) crosshair 1
      in cv_circle B f3 (cx, cy) 3 crosshair (- 1))"

definition draw_debug :: "backend \<Rightarrow> ndarray \<Rightarrow> ndarray" where
  "draw_debug B frame =
     (let w = int (shape1 frame)
      in cv_putText B frame ''DEBUG MODE'' (w - 100, 20) FONT_HERSHEY_SIMPLEX (5 / 10)
           (255, 0, 255) 1)"


text \<open>
  The layer that belongs to one mode, the modes in the order of their values, and the
  layers of the modes above \<open>m1\<close> up to \<open>m2\<close> drawn in that order.
\<close>

fun layer :: "backend \<Rightarrow> StreamConfig \<Rightarrow> OverlayMode \<Rightarrow> ndarray \<Rightarrow> ndarray" where
  "layer B c NONE frame = frame"
| "layer B c MINIMAL frame = draw_border B c frame"
| "layer B c STANDARD frame = draw_info B c frame"
| "layer B c FULL frame = draw_guides B frame"
| "layer B c DEBUG frame = draw_debug B frame"



text \<open>The pixel of an array at a row and a column, where there is one.\<close>

definition pixel_at :: "ndarray \<Rightarrow> nat \<Rightarrow> nat \<Rightarrow> pixel option" where
  "pixel_at a i j =
     (if i < length (rows a) \<and> j < length (rows a ! i) then Some (rows a ! i ! j) else None)"

section \<open>Concrete configurations and stores\<close>

text \<open>
  A configuration with modes other than the defaults, a store with nothing in it, a store
  whose record names only \<open>x\<close> and \<open>height\<close>, and a store whose record gives a position and
  an overlay mode that is no member of the enumeration.
\<close>

definition prior_config :: StreamConfig where
  "prior_config = default_config\<lparr>overlay_mode := DEBUG, movement_mode := TURBO\<rparr>"

definition empty_store :: filesystem where
  "empty_store = Map.empty"

definition partial_record :: "string \<rightharpoonup> int" where
  "partial_record = [''x'' \<mapsto> 100, ''height'' \<mapsto> 120]"

definition partial_store :: filesystem where
  "partial_store = [''stream_config.json'' \<mapsto> Record partial_record]"

definition corrupt_record :: "string \<rightharpoonup> int" where
  "corrupt_record = [''x'' \<mapsto> 100, ''overlay_mode'' \<mapsto> 7]"

definition corrupt_store :: filesystem where
  "corrupt_store = [''stream_config.json'' \<mapsto> Record corrupt_record]"

section \<open>Where the drawing routines draw\<close>

text \<open>
  A box \<open>(x0, y0, x1, y1)\<close> is a range of columns \<open>x0..x1\<close> and rows \<open>y0..y1\<close>, both ends
  included, in the coordinates of OpenCV: a point is (column, row), a pixel of an array
  is addressed by row \<open>i\<close> and column \<open>j\<close>.
\<close>

type_synonym box = "int \<times> int \<times> int \<times> int"

definition in_box :: "box \<Rightarrow> nat \<Rightarrow> nat \<Rightarrow> bool" where
  "in_box b i j =
     (case b of (x0, y0, x1, y1) \<Rightarrow>
        x0 \<le> int j \<and> int j \<le> x1 \<and> y0 \<le> int i \<and> int i \<le> y1)"

definition in_boxes :: "box list \<Rightarrow> nat \<Rightarrow> nat \<Rightarrow> bool" where
  "in_boxes bs i j = list_ex (\<lambda>b. in_box b i j) bs"

text \<open>
  The box that bounds what a call may touch, from the arguments of the call alone: a
  rectangle or a line between two points stays within the box the points span, widened
  by the thickness of the stroke, and within that box itself when the shape is filled
  (negative thickness); a circle stays within its centre widened by the radius, and by
  the thickness too when it is not filled.
\<close>

definition span :: "point \<Rightarrow> point \<Rightarrow> box" where
  "span p q = (min (fst p) (fst q), min (snd p) (snd q), max (fst p) (fst q), max (snd p) (snd q))"

definition expand :: "int \<Rightarrow> box \<Rightarrow> box" where
  "expand t b = (case b of (x0, y0, x1, y1) \<Rightarrow> (x0 - t, y0 - t, x1 + t, y1 + t))"

definition stroke_box :: "point \<Rightarrow> point \<Rightarrow> int \<Rightarrow> box" where
  "stroke_box p q t = (if t < 0 then span p q else expand t (span p q))"

definition disc_box :: "point \<Rightarrow> int \<Rightarrow> int \<Rightarrow> box" where
  "disc_box p r t = (if t < 0 then expand r (span p p) else expand (r + t) (span p p))"

text \<open>
  The extent of a rendered text depends on the glyphs of the font, which belong to
  OpenCV. It is a parameter beside the backend: the box that a text with the given
  origin, font, scale and thickness stays within.
\<close>

type_synonym text_extent = "string \<Rightarrow> point \<Rightarrow> font \<Rightarrow> real \<Rightarrow> int \<Rightarrow> box"

text \<open>
  What is assumed of a backend when pixels are compared: every routine returns a frame
  of the shape it was given; a drawing routine leaves every pixel outside the box of its
  call as it was; and blending with the weights of the source, 0.8 and 0.2 and no offset,
  leaves a pixel as it was where both frames agree on it.
\<close>

definition confined :: "backend \<Rightarrow> text_extent \<Rightarrow> bool" where
  "confined B T \<longleftrightarrow>
     (\<forall>a p q col t.
        shape0 (cv_rectangle B a p q col t) = shape0 a \<and>
        shape1 (cv_rectangle B a p q col t) = shape1 a \<and>
        (\<forall>i j. \<not> in_box (stroke_box p q t) i j \<longrightarrow>
           pixel_at (cv_rectangle B a p q col t) i j = pixel_at a i j)) \<and>
     (\<forall>a p q col t.
        shape0 (cv_line B a p q col t) = shape0 a \<and>
        shape1 (cv_line B a p q col t) = shape1 a \<and>
        (\<forall>i j. \<not> in_box (stroke_box p q t) i j \<longrightarrow>
           pixel_at (cv_line B a p q col t) i j = pixel_at a i j)) \<and>
     (\<forall>a p r col t.
        shape0 (cv_circle B a p r col t) = shape0 a \<and>
        shape1 (cv_circle B a p r col t) = shape1 a \<and>
        (\<forall>i j. \<not> in_box (disc_box p r t) i j \<longrightarrow>
           pixel_at (cv_circle B a p r col t) i j = pixel_at a i j)) \<and>
     (\<forall>a s p f sc col t.
        shape0 (cv_putText B a s p f sc col t) = shape0 a \<and>
        shape1 (cv_putText B a s p f sc col t) = shape1 a \<and>
        (\<forall>i j. \<not> in_box (T s p f sc t) i j \<longrightarrow>
           pixel_at (cv_putText B a s p f sc col t) i j = pixel_at a i j)) \<and>
     (\<forall>a b.
        shape0 (cv_addWeighted B a (8 / 10) b (2 / 10) 0) = shape0 a \<and>
        shape1 (cv_addWeighted B a (8 / 10) b (2 / 10) 0) = shape1 a \<and>
        (\<forall>i j. pixel_at b i j = pixel_at a i j \<longrightarrow>
           pixel_at (cv_addWeighted B a (8 / 10) b (2 / 10) 0) i j = pixel_at a i j))"

text \<open>
  The boxes of the calls that each layer makes, in the order and with the arguments of
  \<^verbatim>\<open>_draw_border\<close>, \<^verbatim>\<open>_draw_info\<close>, \<^verbatim>\<open>_draw_guides\<close> and \<^verbatim>\<open>_draw_debug\<close>, for a frame of
  \<open>h\<close> rows and \<open>w\<close> columns; then the boxes of the layers of the modes above \<open>m1\<close> up to
  \<open>m2\<close>.
\<close>

definition corner_boxes :: "point \<Rightarrow> box list" where
  "corner_boxes p =
     (let px = fst p;
          py = snd p;
          dx = (if px = 0 then 1 else - 1);
          dy = (if py = 0 then 1 else - 1)
      in [stroke_box (px, py) (px + dx * 20, py) 3,
          stroke_box (px, py) (px, py + dy * 20) 3])"

definition border_boxes :: "int \<Rightarrow> int \<Rightarrow> box list" where
  "border_boxes h w =
     stroke_box (0, 0) (w - 1, h - 1) 2
     # concat (map corner_boxes [(0, 0), (w - 1, 0), (0, h - 1), (w - 1, h - 1)])"

definition info_boxes :: "text_extent \<Rightarrow> StreamConfig \<Rightarrow> box list" where
  "info_boxes T c =
     [stroke_box (5, 5) (250, 65) (- 1),
      T (''Pos: ('' @ py_str (x c) @ '', '' @ py_str (y c) @ '')'')
        (10, 25) FONT_HERSHEY_SIMPLEX (5 / 10) 1,
      T (''Size: '' @ py_str (width c) @ ''x'' @ py_str (height c))
        (10, 45) FONT_HERSHEY_SIMPLEX (5 / 10) 1,
      T (''Mode: '' @ movement_name (movement_mode c))
        (10, 60) FONT_HERSHEY_SIMPLEX (4 / 10) 1]"

definition grid_boxes :: "int \<Rightarrow> int \<Rightarrow> int \<Rightarrow> box list" where
  "grid_boxes h w i =
     (let gx = (w * i) div 3;
          gy = (h * i) div 3
      in [stroke_box (gx, 0) (gx, h) 1, stroke_box (0, gy) (w, gy) 1])"

definition guides_boxes :: "int \<Rightarrow> int \<Rightarrow> box list" where
  "guides_boxes h w =
     (let cx = w div 2;
          cy = h div 2
      in concat (map (grid_boxes h w) [1, 2])
         @ [stroke_box (cx - 15, cy) (cx + 15, cy) 1,
            stroke_box (cx, cy - 15) (cx, cy + 15) 1,
            disc_box (cx, cy) 3 (- 1)])"

definition debug_boxes :: "text_extent \<Rightarrow> int \<Rightarrow> box list" where
  "debug_boxes T w = [T ''DEBUG MODE'' (w - 100, 20) FONT_HERSHEY_SIMPLEX (5 / 10) 1]"

fun layer_boxes :: "text_extent \<Rightarrow> StreamConfig \<Rightarrow> int \<Rightarrow> int \<Rightarrow> OverlayMode \<Rightarrow> box list" where
  "layer_boxes T c h w NONE = []"
| "layer_boxes T c h w MINIMAL = border_boxes h w"
| "layer_boxes T c h w STANDARD = info_boxes T c"
| "layer_boxes T c h w FULL = guides_boxes h w"
| "layer_boxes T c h w DEBUG = debug_boxes T w"


section \<open>A sample backend\<close>






section \<open>Concrete frames and regions\<close>

text \<open>
  A frame of 4 rows and 3 columns with pairwise different pixels, a region that lies
  wholly above it, and two regions that lie wholly to its left.
\<close>

definition small_frame :: ndarray where
  "small_frame =
     \<lparr>shape0 = 4, shape1 = 3,
      rows = [[(1, 1, 1), (2, 2, 2), (3, 3, 3)],
              [(4, 4, 4), (5, 5, 5), (6, 6, 6)],
              [(7, 7, 7), (8, 8, 8), (9, 9, 9)],
              [(10, 10, 10), (11, 11, 11), (12, 12, 12)]]\<rparr>"

definition above_config :: StreamConfig where
  "above_config = default_config\<lparr>x := 0, y := - 3, width := 2, height := 2\<rparr>"

definition left_config :: StreamConfig where
  "left_config = default_config\<lparr>x := - 2, y := 0, width := 1, height := 4\<rparr>"

definition left_tall_config :: StreamConfig where
  "left_tall_config = default_config\<lparr>x := - 2, y := 0, width := 1, height := 5\<rparr>"

section \<open>Properties of the movement controller\<close>

lemma resize_fields:
  "width (resize dw dh c) = max 50 (width c + dw)"
  "height (resize dw dh c) = max 50 (height c + dh)"
  by (simp_all add: resize_def Let_def)

lemma resize_all_floor:
  "50 \<le> width c \<Longrightarrow> 50 \<le> height c \<Longrightarrow>
   50 \<le> width (resize_all ds c) \<and> 50 \<le> height (resize_all ds c)"
  by (induction ds arbitrary: c) (simp_all add: resize_fields)

text \<open>
  Claim C7. From any configuration whose width and height are at least 50, every
  sequence of \<^verbatim>\<open>resize\<close> calls, whatever the deltas, leaves both at least 50. Each
  dimension is floored at 50 on its own: the new width is the larger of 50 and the old
  width plus \<open>dw\<close>, the new height the larger of 50 and the old height plus \<open>dh\<close>. The
  deltas are pixels: the movement mode plays no part in the result.
\<close>

theorem resize_floor:
  "(50 \<le> width c \<and> 50 \<le> height c \<longrightarrow>
      50 \<le> width (resize_all ds c) \<and> 50 \<le> height (resize_all ds c))
   \<and> width (resize dw dh c) = max 50 (width c + dw)
   \<and> height (resize dw dh c) = max 50 (height c + dh)
   \<and> resize dw dh (c\<lparr>movement_mode := m\<rparr>) = (resize dw dh c)\<lparr>movement_mode := m\<rparr>"
  using resize_all_floor [of c ds] by (simp add: resize_fields) (simp add: resize_def Let_def)

text \<open>
  The default region grown three times by 10 and then shrunk far below the floor ends at
  \<open>50 \<times> 50\<close>; a shrink that only the width cannot absorb floors the width alone.
\<close>

theorem resize_floor_witness:
  "50 \<le> width default_config \<and> 50 \<le> height default_config
   \<and> width (resize_all [(10, 10), (10, 10), (10, 10), (- 400, - 100), (- 7, - 200)] default_config) = 50
   \<and> height (resize_all [(10, 10), (10, 10), (10, 10), (- 400, - 100), (- 7, - 200)] default_config) = 50
   \<and> 50 \<le> width (resize_all [(- 400, - 100)] default_config)
   \<and> height (resize_all [(- 400, - 100)] default_config) = 130
   \<and> width (resize (- 400) 3 default_config) = max 50 (width default_config + (- 400))"
  using resize_floor [of default_config "[(- 400, - 100)]" "- 400" 3 FINE]
  by (simp add: default_config_def resize_def Let_def)

text \<open>
  Claim C8. A relative \<^verbatim>\<open>move(dx, dy)\<close> adds \<open>dx * m\<close> to \<open>x\<close> and \<open>dy * m\<close> to \<open>y\<close>, where
  \<open>m\<close> is the multiplier of the active movement mode (1, 5, 10, 20), and nothing clamps
  the result. Under TURBO the displacement is 20 times the one under FINE, and from
  \<open>x = 40, y = 330\<close> the call \<^verbatim>\<open>move(dx=1, dy=0)\<close> under NORMAL gives \<open>x = 45, y = 330\<close>.
\<close>

theorem move_relative:
  "move dx dy True c =
     c\<lparr>x := x c + dx * movement_speeds (movement_mode c),
       y := y c + dy * movement_speeds (movement_mode c)\<rparr>
   \<and> movement_speeds FINE = 1 \<and> movement_speeds NORMAL = 5
   \<and> movement_speeds FAST = 10 \<and> movement_speeds TURBO = 20
   \<and> x (move dx dy True (c\<lparr>movement_mode := TURBO\<rparr>)) - x c =
       20 * (x (move dx dy True (c\<lparr>movement_mode := FINE\<rparr>)) - x c)
   \<and> y (move dx dy True (c\<lparr>movement_mode := TURBO\<rparr>)) - y c =
       20 * (y (move dx dy True (c\<lparr>movement_mode := FINE\<rparr>)) - y c)
   \<and> x (move 1 0 True (c\<lparr>x := 40, y := 330, movement_mode := NORMAL\<rparr>)) = 45
   \<and> y (move 1 0 True (c\<lparr>x := 40, y := 330, movement_mode := NORMAL\<rparr>)) = 330"
  by (simp add: move_def Let_def)

text \<open>
  Claim C10. \<^verbatim>\<open>reset\<close> sets \<open>x, y, width, height\<close> to \<open>40, 330, 340, 230\<close> and leaves the
  overlay mode, the movement mode, the auto-save flag and the configuration file of
  the shared configuration as they were.
\<close>

theorem reset_frame:
  "x (reset c) = 40 \<and> y (reset c) = 330 \<and> width (reset c) = 340 \<and> height (reset c) = 230
   \<and> overlay_mode (reset c) = overlay_mode c
   \<and> movement_mode (reset c) = movement_mode c
   \<and> auto_save (reset c) = auto_save c
   \<and> config_file (reset c) = config_file c"
  by (simp add: reset_def Let_def)

section \<open>Properties of the frame hand-off buffer\<close>

lemma publish_bounded:
  "0 < maxsize q \<Longrightarrow> int (length (items q)) \<le> maxsize q \<Longrightarrow>
   publish f q =
     Some (q\<lparr>items := (if int (length (items q)) = maxsize q then tl (items q) else items q) @ [f]\<rparr>)"
  by (cases "items q") (auto simp: publish_def queue_full_def queue_get_def queue_put_def)

lemma publish_all_bounded:
  "0 < maxsize q \<Longrightarrow> int (length (items q)) \<le> maxsize q \<Longrightarrow>
   publish_all fs q =
     Some (q\<lparr>items := drop (length (items q @ fs) - nat (maxsize q)) (items q @ fs)\<rparr>)"
proof (induction fs arbitrary: q)
  case Nil
  then show ?case by simp
next
  case (Cons f fs)
  let ?q' = "q\<lparr>items := (if int (length (items q)) = maxsize q then tl (items q) else items q) @ [f]\<rparr>"
  have step: "publish f q = Some ?q'"
    using Cons.prems by (rule publish_bounded)
  have bound: "0 < maxsize ?q'" "int (length (items ?q')) \<le> maxsize ?q'"
    using Cons.prems by (auto split: if_splits)
  have "publish_all fs ?q' =
      Some (?q'\<lparr>items := drop (length (items ?q' @ fs) - nat (maxsize ?q')) (items ?q' @ fs)\<rparr>)"
    using bound by (rule Cons.IH)
  moreover have "drop (length (items ?q' @ fs) - nat (maxsize ?q')) (items ?q' @ fs) =
      drop (length (items q @ f # fs) - nat (maxsize q)) (items q @ f # fs)"
  proof (cases "int (length (items q)) = maxsize q")
    case True
    then obtain a rest where ar: "items q = a # rest"
      using Cons.prems by (cases "items q") auto
    with True have "nat (maxsize q) = Suc (length rest)" by auto
    then show ?thesis using True ar by simp
  next
    case False
    then show ?thesis by simp
  qed
  ultimately show ?case using step by simp
qed

lemma poll_all:
  "poll (length (items q)) q = (map Some (items q), q\<lparr>items := []\<rparr>)"
proof (induction "items q" arbitrary: q)
  case Nil
  then show ?case by simp
next
  case (Cons f fs)
  have g: "get_frame q = (Some f, q\<lparr>items := fs\<rparr>)"
    using Cons.hyps(2) [symmetric] by (simp add: get_frame_def queue_get_nowait_def)
  have "poll (length fs) (q\<lparr>items := fs\<rparr>) = (map Some fs, q\<lparr>items := fs\<rparr>\<lparr>items := []\<rparr>)"
    using Cons.hyps(1) [of "q\<lparr>items := fs\<rparr>"] by simp
  then show ?case using g Cons.hyps(2) [symmetric] by simp
qed

text \<open>
  Claim C3. The hand-off buffer has capacity 30. Publishing into a full buffer evicts
  exactly the oldest entry and then appends the new frame; a producer run leaves the
  most recent 30 frames, so after 31 frames the first one is gone and 30 polls return
  the other 30 in the order of their arrival, leaving the buffer empty. A poll of an
  empty buffer returns no frame at once and leaves the buffer empty.
\<close>

theorem frame_buffer_drop_oldest:
  "maxsize (new_frame_queue :: 'a Queue) = 30
   \<and> (maxsize q = 30 \<and> length (items q) = 30 \<longrightarrow>
        publish f q = Some (q\<lparr>items := tl (items q) @ [f]\<rparr>))
   \<and> publish_all fs (new_frame_queue :: 'a Queue) =
        Some \<lparr>maxsize = 30, items = drop (length fs - 30) fs\<rparr>
   \<and> (length fs = 31 \<longrightarrow>
        publish_all fs (new_frame_queue :: 'a Queue) = Some \<lparr>maxsize = 30, items = tl fs\<rparr>
        \<and> poll 30 \<lparr>maxsize = 30, items = tl fs\<rparr> = (map Some (tl fs), new_frame_queue))
   \<and> get_frame (q\<lparr>items := []\<rparr>) = (None, q\<lparr>items := []\<rparr>)"
proof -
  have cap: "maxsize (new_frame_queue :: 'a Queue) = 30"
    by (simp add: new_frame_queue_def)
  have one: "maxsize q = 30 \<and> length (items q) = 30 \<longrightarrow>
        publish f q = Some (q\<lparr>items := tl (items q) @ [f]\<rparr>)"
    using publish_bounded [of q f] by simp
  have many: "publish_all fs (new_frame_queue :: 'a Queue) =
        Some \<lparr>maxsize = 30, items = drop (length fs - 30) fs\<rparr>"
    using publish_all_bounded [of "new_frame_queue :: 'a Queue" fs]
    by (simp add: new_frame_queue_def)
  have over: "length fs = 31 \<longrightarrow>
        publish_all fs (new_frame_queue :: 'a Queue) = Some \<lparr>maxsize = 30, items = tl fs\<rparr>
        \<and> poll 30 \<lparr>maxsize = 30, items = tl fs\<rparr> = (map Some (tl fs), new_frame_queue)"
  proof
    assume len: "length fs = 31"
    then have "drop (length fs - 30) fs = tl fs"
      by (simp add: drop_Suc)
    moreover have "poll (length (items \<lparr>maxsize = 30, items = tl fs\<rparr>)) \<lparr>maxsize = 30, items = tl fs\<rparr>
        = (map Some (tl fs), \<lparr>maxsize = 30, items = []\<rparr>)"
      using poll_all [of "\<lparr>maxsize = 30, items = tl fs\<rparr>"] by simp
    ultimately show "publish_all fs (new_frame_queue :: 'a Queue) = Some \<lparr>maxsize = 30, items = tl fs\<rparr>
        \<and> poll 30 \<lparr>maxsize = 30, items = tl fs\<rparr> = (map Some (tl fs), new_frame_queue)"
      using many len by (simp add: new_frame_queue_def)
  qed
  have empty: "get_frame (q\<lparr>items := []\<rparr>) = (None, q\<lparr>items := []\<rparr>)"
    by (simp add: get_frame_def queue_get_nowait_def)
  from cap one many over empty show ?thesis by blast
qed

text \<open>A full buffer holding 1 to 30 receives 31, and a run publishes 0 to 30.\<close>

theorem frame_buffer_drop_oldest_witness:
  "maxsize \<lparr>maxsize = 30, items = [1 ..< 31 :: nat]\<rparr> = 30
   \<and> length (items \<lparr>maxsize = 30, items = [1 ..< 31 :: nat]\<rparr>) = 30
   \<and> publish 31 \<lparr>maxsize = 30, items = [1 ..< 31 :: nat]\<rparr> =
       Some \<lparr>maxsize = 30, items = tl [1 ..< 31] @ [31]\<rparr>
   \<and> length [0 ..< 31 :: nat] = 31
   \<and> publish_all [0 ..< 31 :: nat] new_frame_queue = Some \<lparr>maxsize = 30, items = tl [0 ..< 31]\<rparr>
   \<and> poll 30 \<lparr>maxsize = 30, items = tl [0 ..< 31 :: nat]\<rparr> = (map Some (tl [0 ..< 31]), new_frame_queue)
   \<and> tl [0 ..< 31 :: nat] = [1 ..< 31]"
  using frame_buffer_drop_oldest [of "\<lparr>maxsize = 30, items = [1 ..< 31 :: nat]\<rparr>" 31 "[0 ..< 31 :: nat]"]
  by (simp add: tl_upt)

section \<open>Properties of configuration persistence\<close>

lemma OverlayMode_of_value: "OverlayMode_of (overlay_value m) = Inr m"
  by (cases m) (simp_all add: OverlayMode_of_def)

lemma MovementMode_of_value: "MovementMode_of (movement_value m) = Inr m"
  by (cases m) (simp_all add: MovementMode_of_def)

lemma OverlayMode_of_Inr: "OverlayMode_of v = Inr m \<Longrightarrow> overlay_value m = v"
  by (auto simp: OverlayMode_of_def split: if_splits)

lemma MovementMode_of_Inr: "MovementMode_of v = Inr m \<Longrightarrow> movement_value m = v"
  by (auto simp: MovementMode_of_def split: if_splits)

text \<open>An absent or unreadable file is reported as not loaded, with no field touched.\<close>

lemma load_missing:
  "fs (config_file c) = None \<or> fs (config_file c) = Some Unreadable \<Longrightarrow> load fs c = (False, c)"
  by (auto simp: load_def)

text \<open>
  Claim C6. For every configuration \<open>c\<close>, \<^verbatim>\<open>save(c)\<close> followed by \<^verbatim>\<open>load(fresh)\<close> on a
  configuration with the same configuration file returns \<open>True\<close> and gives \<open>fresh\<close> the
  \<open>x, y, width, height\<close>, overlay mode and movement mode of \<open>c\<close>.
\<close>

theorem save_load_roundtrip:
  "config_file fresh = config_file c \<Longrightarrow>
   load (save c fs) fresh =
     (True, fresh\<lparr>x := x c, y := y c, width := width c, height := height c,
               overlay_mode := overlay_mode c, movement_mode := movement_mode c\<rparr>)"
  by (simp add: load_def save_def dict_get_def Let_def OverlayMode_of_value MovementMode_of_value)

text \<open>An off-screen region under DEBUG and TURBO, saved and loaded into the defaults.\<close>

theorem save_load_roundtrip_witness:
  "config_file default_config = config_file (prior_config\<lparr>x := - 12, y := 2000, width := 77\<rparr>)
   \<and> load (save (prior_config\<lparr>x := - 12, y := 2000, width := 77\<rparr>) empty_store) default_config =
       (True, default_config\<lparr>x := - 12, y := 2000, width := 77, height := 230,
               overlay_mode := DEBUG, movement_mode := TURBO\<rparr>)"
  using save_load_roundtrip [of default_config "prior_config\<lparr>x := - 12, y := 2000, width := 77\<rparr>" empty_store]
  by (simp add: prior_config_def default_config_def)

text \<open>
  Claim C4, as stated, fails: a record that names neither mode loads successfully, and
  the overlay mode and the movement mode do not keep their prior values DEBUG and
  TURBO but become STANDARD and NORMAL.
\<close>

theorem load_absent_mode_counterexample:
  "fst (load partial_store prior_config) = True
   \<and> partial_record ''overlay_mode'' = None
   \<and> partial_record ''movement_mode'' = None
   \<and> overlay_mode prior_config = DEBUG
   \<and> overlay_mode (snd (load partial_store prior_config)) = STANDARD
   \<and> movement_mode prior_config = TURBO
   \<and> movement_mode (snd (load partial_store prior_config)) = NORMAL"
  by (simp add: load_def partial_store_def partial_record_def prior_config_def default_config_def
        dict_get_def OverlayMode_of_def MovementMode_of_def Let_def)

text \<open>
  Claim C4, amended. When \<^verbatim>\<open>load\<close> returns \<open>True\<close>, the file holds a record, and each of
  \<open>x, y, width, height\<close> is the record's value where the record has the field and the prior
  value where it has not; the overlay mode is the member whose value the record gives,
  and STANDARD (2) where the record has no \<open>overlay_mode\<close>; the movement mode is the
  member whose value the record gives, and NORMAL (5) where the record has no
  \<open>movement_mode\<close>; the auto-save flag and the configuration file are unchanged.
\<close>

theorem load_success_fields:
  "load fs c = (True, c') \<Longrightarrow>
   \<exists>data. fs (config_file c) = Some (Record data)
     \<and> x c' = (case data ''x'' of None \<Rightarrow> x c | Some v \<Rightarrow> v)
     \<and> y c' = (case data ''y'' of None \<Rightarrow> y c | Some v \<Rightarrow> v)
     \<and> width c' = (case data ''width'' of None \<Rightarrow> width c | Some v \<Rightarrow> v)
     \<and> height c' = (case data ''height'' of None \<Rightarrow> height c | Some v \<Rightarrow> v)
     \<and> overlay_value (overlay_mode c') = (case data ''overlay_mode'' of None \<Rightarrow> 2 | Some v \<Rightarrow> v)
     \<and> movement_value (movement_mode c') = (case data ''movement_mode'' of None \<Rightarrow> 5 | Some v \<Rightarrow> v)
     \<and> auto_save c' = auto_save c
     \<and> config_file c' = config_file c"
proof -
  assume ok: "load fs c = (True, c')"
  then obtain data where rec: "fs (config_file c) = Some (Record data)"
    by (auto simp: load_def split: option.splits document.splits)
  from ok rec obtain om mm where
    om: "OverlayMode_of (dict_get data ''overlay_mode'' 2) = Inr om" and
    mm: "MovementMode_of (dict_get data ''movement_mode'' 5) = Inr mm" and
    c': "c' = c\<lparr>x := dict_get data ''x'' (x c), y := dict_get data ''y'' (y c),
               width := dict_get data ''width'' (width c),
               height := dict_get data ''height'' (height c),
               overlay_mode := om, movement_mode := mm\<rparr>"
    by (auto simp: load_def Let_def split: sum.splits)
  have "overlay_value om = dict_get data ''overlay_mode'' 2"
    using om by (rule OverlayMode_of_Inr)
  moreover have "movement_value mm = dict_get data ''movement_mode'' 5"
    using mm by (rule MovementMode_of_Inr)
  ultimately show ?thesis
    using rec c' by (simp add: dict_get_def)
qed

text \<open>The record naming only \<open>x\<close> and \<open>height\<close>, loaded over DEBUG and TURBO.\<close>

theorem load_success_fields_witness:
  "load partial_store prior_config =
     (True, prior_config\<lparr>x := 100, height := 120, overlay_mode := STANDARD, movement_mode := NORMAL\<rparr>)
   \<and> (\<exists>data. partial_store (config_file prior_config) = Some (Record data)
     \<and> x (prior_config\<lparr>x := 100, height := 120, overlay_mode := STANDARD, movement_mode := NORMAL\<rparr>)
         = (case data ''x'' of None \<Rightarrow> x prior_config | Some v \<Rightarrow> v)
     \<and> overlay_value (overlay_mode (prior_config\<lparr>x := 100, height := 120, overlay_mode := STANDARD, movement_mode := NORMAL\<rparr>))
         = (case data ''overlay_mode'' of None \<Rightarrow> 2 | Some v \<Rightarrow> v))"
proof -
  have ok: "load partial_store prior_config =
     (True, prior_config\<lparr>x := 100, height := 120, overlay_mode := STANDARD, movement_mode := NORMAL\<rparr>)"
    by (simp add: load_def partial_store_def partial_record_def prior_config_def default_config_def
        dict_get_def OverlayMode_of_def MovementMode_of_def Let_def)
  from load_success_fields [OF ok] ok show ?thesis by blast
qed

text \<open>
  Claim C5 asks that a load which returns \<open>False\<close> leaves the configuration unchanged.
  On the record \<open>{"x": 100, "overlay_mode": 7}\<close> the loader assigns \<open>x\<close>, then fails on the
  overlay mode and returns \<open>False\<close>: the configuration handed back has \<open>x = 100\<close> and is
  not the one passed in.
\<close>

theorem load_partial_update:
  "load corrupt_store default_config = (False, default_config\<lparr>x := 100\<rparr>)
   \<and> default_config\<lparr>x := 100\<rparr> \<noteq> default_config"
proof -
  have "load corrupt_store default_config = (False, default_config\<lparr>x := 100\<rparr>)"
    by (simp add: load_def corrupt_store_def corrupt_record_def default_config_def
        dict_get_def OverlayMode_of_def Let_def)
  moreover have "x (default_config\<lparr>x := 100\<rparr>) \<noteq> x default_config"
    by (simp add: default_config_def)
  then have "default_config\<lparr>x := 100\<rparr> \<noteq> default_config"
    by metis
  ultimately show ?thesis by simp
qed

section \<open>Properties of the overlay renderer\<close>





text \<open>Layers drawn by a confined backend keep the shape and every pixel outside their boxes.\<close>

lemma in_boxes_simps:
  "in_boxes [] i j = False"
  "in_boxes (b # bs) i j = (in_box b i j \<or> in_boxes bs i j)"
  "in_boxes (bs @ cs) i j = (in_boxes bs i j \<or> in_boxes cs i j)"
  by (auto simp: in_boxes_def)

lemma confined_rectangle:
  assumes "confined B T"
  shows "shape0 (cv_rectangle B a p q col t) = shape0 a"
    and "shape1 (cv_rectangle B a p q col t) = shape1 a"
    and "\<not> in_box (stroke_box p q t) i j \<Longrightarrow>
           pixel_at (cv_rectangle B a p q col t) i j = pixel_at a i j"
  using assms by (simp_all add: confined_def del: split_paired_All)

lemma confined_line:
  assumes "confined B T"
  shows "shape0 (cv_line B a p q col t) = shape0 a"
    and "shape1 (cv_line B a p q col t) = shape1 a"
    and "\<not> in_box (stroke_box p q t) i j \<Longrightarrow>
           pixel_at (cv_line B a p q col t) i j = pixel_at a i j"
  using assms by (simp_all add: confined_def del: split_paired_All)

lemma confined_circle:
  assumes "confined B T"
  shows "shape0 (cv_circle B a p r col t) = shape0 a"
    and "shape1 (cv_circle B a p r col t) = shape1 a"
    and "\<not> in_box (disc_box p r t) i j \<Longrightarrow>
           pixel_at (cv_circle B a p r col t) i j = pixel_at a i j"
  using assms by (simp_all add: confined_def del: split_paired_All)

lemma confined_putText:
  assumes "confined B T"
  shows "shape0 (cv_putText B a s p f sc col t) = shape0 a"
    and "shape1 (cv_putText B a s p f sc col t) = shape1 a"
    and "\<not> in_box (T s p f sc t) i j \<Longrightarrow>
           pixel_at (cv_putText B a s p f sc col t) i j = pixel_at a i j"
  using assms by (simp_all add: confined_def del: split_paired_All)

lemma confined_addWeighted:
  assumes "confined B T"
  shows "shape0 (cv_addWeighted B a (8 / 10) b (2 / 10) 0) = shape0 a"
    and "shape1 (cv_addWeighted B a (8 / 10) b (2 / 10) 0) = shape1 a"
    and "pixel_at b i j = pixel_at a i j \<Longrightarrow>
           pixel_at (cv_addWeighted B a (8 / 10) b (2 / 10) 0) i j = pixel_at a i j"
  using assms by (simp_all add: confined_def del: split_paired_All)

lemma confined_blend:
  assumes "confined B T"
  shows "shape0 (cv_addWeighted B a (4 / 5) b (1 / 5) 0) = shape0 a"
    and "shape1 (cv_addWeighted B a (4 / 5) b (1 / 5) 0) = shape1 a"
    and "pixel_at b i j = pixel_at a i j \<Longrightarrow>
           pixel_at (cv_addWeighted B a (4 / 5) b (1 / 5) 0) i j = pixel_at a i j"
  using confined_addWeighted [OF assms, where a = a and b = b] by simp_all

lemmas confined_shape =
  confined_rectangle(1,2) confined_line(1,2) confined_circle(1,2)
  confined_putText(1,2) confined_blend(1,2)

lemma draw_corner_confined:
  assumes "confined B T"
  shows "shape0 (draw_corner B p a) = shape0 a"
    and "shape1 (draw_corner B p a) = shape1 a"
    and "\<not> in_boxes (corner_boxes p) i j \<Longrightarrow> pixel_at (draw_corner B p a) i j = pixel_at a i j"
  using assms
  by (simp_all add: draw_corner_def corner_boxes_def Let_def in_boxes_simps
        confined_shape [OF assms] confined_line(3) [OF assms])

lemma draw_border_confined:
  assumes "confined B T"
  shows "shape0 (draw_border B c a) = shape0 a"
    and "shape1 (draw_border B c a) = shape1 a"
    and "\<not> in_boxes (border_boxes (int (shape0 a)) (int (shape1 a))) i j \<Longrightarrow>
           pixel_at (draw_border B c a) i j = pixel_at a i j"
  by (simp_all add: draw_border_def border_boxes_def Let_def in_boxes_simps
        confined_shape [OF assms] confined_rectangle(3) [OF assms] draw_corner_confined [OF assms])

lemma draw_info_confined:
  assumes "confined B T"
  shows "shape0 (draw_info B c a) = shape0 a"
    and "shape1 (draw_info B c a) = shape1 a"
    and "\<not> in_boxes (info_boxes T c) i j \<Longrightarrow> pixel_at (draw_info B c a) i j = pixel_at a i j"
  by (simp_all add: draw_info_def info_boxes_def Let_def in_boxes_simps
        confined_shape [OF assms] confined_rectangle(3) [OF assms]
        confined_putText(3) [OF assms] confined_blend(3) [OF assms])

lemma draw_grid_lines_confined:
  assumes "confined B T"
  shows "shape0 (draw_grid_lines B h w k a) = shape0 a"
    and "shape1 (draw_grid_lines B h w k a) = shape1 a"
    and "\<not> in_boxes (grid_boxes h w k) i j \<Longrightarrow>
           pixel_at (draw_grid_lines B h w k a) i j = pixel_at a i j"
  by (simp_all add: draw_grid_lines_def grid_boxes_def Let_def in_boxes_simps
        confined_shape [OF assms] confined_line(3) [OF assms])

lemma draw_guides_confined:
  assumes "confined B T"
  shows "shape0 (draw_guides B a) = shape0 a"
    and "shape1 (draw_guides B a) = shape1 a"
    and "\<not> in_boxes (guides_boxes (int (shape0 a)) (int (shape1 a))) i j \<Longrightarrow>
           pixel_at (draw_guides B a) i j = pixel_at a i j"
  by (simp_all add: draw_guides_def guides_boxes_def Let_def in_boxes_simps
        confined_shape [OF assms] confined_line(3) [OF assms] confined_circle(3) [OF assms]
        draw_grid_lines_confined [OF assms])

lemma draw_debug_confined:
  assumes "confined B T"
  shows "shape0 (draw_debug B a) = shape0 a"
    and "shape1 (draw_debug B a) = shape1 a"
    and "\<not> in_boxes (debug_boxes T (int (shape1 a))) i j \<Longrightarrow>
           pixel_at (draw_debug B a) i j = pixel_at a i j"
  by (simp_all add: draw_debug_def debug_boxes_def Let_def in_boxes_simps
        confined_shape [OF assms] confined_putText(3) [OF assms])

lemma layer_confined:
  assumes "confined B T"
  shows "shape0 (layer B c m a) = shape0 a"
    and "shape1 (layer B c m a) = shape1 a"
    and "\<not> in_boxes (layer_boxes T c (int (shape0 a)) (int (shape1 a)) m) i j \<Longrightarrow>
           pixel_at (layer B c m a) i j = pixel_at a i j"
  by (cases m; simp add: draw_border_confined [OF assms] draw_info_confined [OF assms]
        draw_guides_confined [OF assms] draw_debug_confined [OF assms])+

lemma fold_layer_shape:
  assumes "confined B T"
  shows "shape0 (fold (layer B c) ms a) = shape0 a \<and> shape1 (fold (layer B c) ms a) = shape1 a"
  by (induction ms arbitrary: a) (simp_all add: layer_confined(1,2) [OF assms])













section \<open>Properties of region extraction\<close>

text \<open>Slices whose bounds are not negative and whose stop is within the axis.\<close>

lemma shape_slice_nonneg:
  "0 \<le> lo \<Longrightarrow> 0 \<le> hi \<Longrightarrow> hi \<le> int n \<Longrightarrow>
   slice_index n hi - slice_index n lo = nat (hi - lo)"
  by (auto simp: slice_index_def min_def nat_diff_distrib')

lemma py_slice_nonneg:
  "0 \<le> lo \<Longrightarrow> 0 \<le> hi \<Longrightarrow> hi \<le> int (length xs) \<Longrightarrow>
   py_slice lo hi xs = take (nat (hi - lo)) (drop (nat lo) xs)"
  using shape_slice_nonneg [of lo hi "length xs"]
  by (auto simp: py_slice_def Let_def) (auto simp: slice_index_def min_def)

lemma length_take_drop_nonneg:
  "0 \<le> lo \<Longrightarrow> hi \<le> int (length xs) \<Longrightarrow>
   length (take (nat (hi - lo)) (drop (nat lo) xs)) = nat (hi - lo)"
  by auto

lemma nth_take_drop_nonneg:
  "0 \<le> lo \<Longrightarrow> hi \<le> int (length xs) \<Longrightarrow> i < nat (hi - lo) \<Longrightarrow>
   take (nat (hi - lo)) (drop (nat lo) xs) ! i = xs ! (nat lo + i)"
  by auto

text \<open>
  Where the far edges of the region are not negative (\<open>x + width \<ge> 0\<close> and
  \<open>y + height \<ge> 0\<close>), extraction returns the reference result, for every well-formed
  frame and every positive size.
\<close>

lemma extract_region_in_range:
  assumes wf: "wf_array frame"
    and w: "0 < width c" and h: "0 < height c"
    and yh: "0 \<le> y c + height c" and xw: "0 \<le> x c + width c"
  shows "extract_region c frame = Inr (spec_extract c frame)"
proof -
  define y1 where "y1 = max 0 (y c)"
  define y2 where "y2 = min (int (shape0 frame)) (y c + height c)"
  define x1 where "x1 = max 0 (x c)"
  define x2 where "x2 = min (int (shape1 frame)) (x c + width c)"
  define ih where "ih = nat (y2 - y1)"
  define iw where "iw = nat (x2 - x1)"
  define stream where "stream = slice2 y1 y2 x1 x2 frame"
  have len: "length (rows frame) = shape0 frame"
    and rowlen: "\<And>r. r \<in> set (rows frame) \<Longrightarrow> length r = shape1 frame"
    using wf by (auto simp: wf_array_def list_all_iff)
  have by1: "0 \<le> y1" and by2: "0 \<le> y2" and by3: "y2 \<le> int (length (rows frame))"
    using yh by (auto simp: y1_def y2_def len)
  have bx1: "0 \<le> x1" and bx2: "0 \<le> x2" and bx3: "x2 \<le> int (shape1 frame)"
    using xw by (auto simp: x1_def x2_def)
  have ihh: "int ih \<le> height c" and iww: "int iw \<le> width c"
    using h w by (auto simp: ih_def iw_def y1_def y2_def x1_def x2_def)
  have sh0: "shape0 stream = ih"
    using by1 by2 by3 by (simp add: stream_def slice2_def shape_slice_nonneg ih_def len)
  have sh1: "shape1 stream = iw"
    using bx1 bx2 bx3 by (simp add: stream_def slice2_def shape_slice_nonneg iw_def)
  have outer: "py_slice y1 y2 (rows frame) = take ih (drop (nat y1) (rows frame))"
    using by1 by2 by3 by (simp add: py_slice_nonneg ih_def)
  have inner: "\<And>r. r \<in> set (rows frame) \<Longrightarrow> py_slice x1 x2 r = take iw (drop (nat x1) r)"
    using bx1 bx2 bx3 by (simp add: py_slice_nonneg iw_def rowlen)
  have srows: "rows stream = map (\<lambda>r. take iw (drop (nat x1) r)) (take ih (drop (nat y1) (rows frame)))"
    unfolding stream_def slice2_def outer
    by (auto intro!: map_cong inner dest!: in_set_takeD in_set_dropD)
  have slen: "length (rows stream) = ih"
    using by1 by3 by (simp add: srows ih_def)
  have snth: "rows stream ! i = take iw (drop (nat x1) (rows frame ! (nat y1 + i)))" if "i < ih" for i
    using that by1 by3 by (simp add: srows ih_def)
  have inrange: "nat y1 + i < length (rows frame)" if "i < ih" for i
    using that by1 by3 by (simp add: ih_def)
  have srowlen: "length (rows stream ! i) = iw" if "i < ih" for i
  proof -
    have "length (rows frame ! (nat y1 + i)) = shape1 frame"
      using inrange [OF that] by (simp add: rowlen)
    then show ?thesis
      using that bx1 bx3 by (simp add: snth iw_def)
  qed
  have spix: "rows stream ! i ! j = rows frame ! (nat y1 + i) ! (nat x1 + j)"
    if "i < ih" "j < iw" for i j
  proof -
    have "length (rows frame ! (nat y1 + i)) = shape1 frame"
      using inrange [OF that(1)] by (simp add: rowlen)
    then show ?thesis
      using that bx1 bx3 by (simp add: snth iw_def)
  qed
  have spec: "spec_extract c frame =
      \<lparr>shape0 = nat (height c), shape1 = nat (width c),
       rows = map (\<lambda>i. map (\<lambda>j. if i < ih \<and> j < iw
                                  then rows frame ! (nat y1 + i) ! (nat x1 + j) else black)
                           [0 ..< nat (width c)])
                  [0 ..< nat (height c)]\<rparr>"
    by (simp add: spec_extract_def Let_def y1_def y2_def x1_def x2_def ih_def iw_def)
  have code: "extract_region c frame =
      (if int (shape0 stream) < height c \<or> int (shape1 stream) < width c
       then (case np_zeros (height c) (width c) of
               Inl e \<Rightarrow> Inl e
             | Inr padded \<Rightarrow> assign_top_left padded stream)
       else Inr stream)"
    by (simp only: extract_region_def Let_def y1_def y2_def x1_def x2_def stream_def)
  show ?thesis
  proof (cases "int ih < height c \<or> int iw < width c")
    case False
    then have eqh: "ih = nat (height c)" and eqw: "iw = nat (width c)"
      using ihh iww by auto
    have "rows stream =
        map (\<lambda>i. map (\<lambda>j. if i < ih \<and> j < iw
                              then rows frame ! (nat y1 + i) ! (nat x1 + j) else black)
                       [0 ..< nat (width c)])
            [0 ..< nat (height c)]"
    proof (rule nth_equalityI)
      show "length (rows stream) = length (map (\<lambda>i. map (\<lambda>j. if i < ih \<and> j < iw
                              then rows frame ! (nat y1 + i) ! (nat x1 + j) else black)
                       [0 ..< nat (width c)]) [0 ..< nat (height c)])"
        by (simp add: slen eqh)
    next
      fix i assume "i < length (rows stream)"
      then have i: "i < ih" by (simp add: slen)
      show "rows stream ! i = map (\<lambda>i. map (\<lambda>j. if i < ih \<and> j < iw
                              then rows frame ! (nat y1 + i) ! (nat x1 + j) else black)
                       [0 ..< nat (width c)]) [0 ..< nat (height c)] ! i"
      proof (rule nth_equalityI)
        show "length (rows stream ! i) = length (map (\<lambda>i. map (\<lambda>j. if i < ih \<and> j < iw
                              then rows frame ! (nat y1 + i) ! (nat x1 + j) else black)
                       [0 ..< nat (width c)]) [0 ..< nat (height c)] ! i)"
          using i by (simp add: srowlen eqh [symmetric] eqw [symmetric])
      next
        fix j assume "j < length (rows stream ! i)"
        then have j: "j < iw" using i by (simp add: srowlen)
        show "rows stream ! i ! j = map (\<lambda>i. map (\<lambda>j. if i < ih \<and> j < iw
                              then rows frame ! (nat y1 + i) ! (nat x1 + j) else black)
                       [0 ..< nat (width c)]) [0 ..< nat (height c)] ! i ! j"
          using i j by (simp add: spix eqh [symmetric] eqw [symmetric])
      qed
    qed
    then have "stream = spec_extract c frame"
      using sh0 sh1 eqh eqw by (simp add: spec)
    moreover have "extract_region c frame = Inr stream"
      using False by (simp add: code sh0 sh1)
    ultimately show ?thesis
      by simp
  next
    case True
    define R where "R = map (\<lambda>(s, p). take iw s @ drop iw p)
                     (zip (take ih (rows stream)) (take ih (replicate (nat (height c)) (replicate (nat (width c)) black))))
                 @ drop ih (replicate (nat (height c)) (replicate (nat (width c)) black))"
    have ihn: "ih \<le> nat (height c)" and iwn: "iw \<le> nat (width c)"
      using ihh iww by auto
    have res: "extract_region c frame =
        Inr \<lparr>shape0 = nat (height c), shape1 = nat (width c), rows = R\<rparr>"
      using True h w ihn iwn
      by (simp add: code sh0 sh1 np_zeros_def assign_top_left_def Let_def R_def min_absorb1)
    have Rlen: "length R = nat (height c)"
      using ihn by (simp add: R_def slen)
    have Rnth: "R ! i = (if i < ih then rows stream ! i @ replicate (nat (width c) - iw) black
                         else replicate (nat (width c)) black)" if "i < nat (height c)" for i
    proof (cases "i < ih")
      case True
      then show ?thesis
        using that ihn by (simp add: R_def nth_append slen srowlen)
    next
      case False
      then show ?thesis
        using that ihn by (simp add: R_def nth_append slen)
    qed
    have "R = map (\<lambda>i. map (\<lambda>j. if i < ih \<and> j < iw
                              then rows frame ! (nat y1 + i) ! (nat x1 + j) else black)
                       [0 ..< nat (width c)])
            [0 ..< nat (height c)]"
    proof (rule nth_equalityI)
      show "length R = length (map (\<lambda>i. map (\<lambda>j. if i < ih \<and> j < iw
                              then rows frame ! (nat y1 + i) ! (nat x1 + j) else black)
                       [0 ..< nat (width c)]) [0 ..< nat (height c)])"
        by (simp add: Rlen)
    next
      fix i assume "i < length R"
      then have i: "i < nat (height c)" by (simp add: Rlen)
      show "R ! i = map (\<lambda>i. map (\<lambda>j. if i < ih \<and> j < iw
                              then rows frame ! (nat y1 + i) ! (nat x1 + j) else black)
                       [0 ..< nat (width c)]) [0 ..< nat (height c)] ! i"
      proof (rule nth_equalityI)
        show "length (R ! i) = length (map (\<lambda>i. map (\<lambda>j. if i < ih \<and> j < iw
                              then rows frame ! (nat y1 + i) ! (nat x1 + j) else black)
                       [0 ..< nat (width c)]) [0 ..< nat (height c)] ! i)"
          using i iwn by (simp add: Rnth srowlen)
      next
        fix j assume "j < length (R ! i)"
        then have j: "j < nat (width c)"
          using i iwn by (simp add: Rnth srowlen split: if_splits)
        show "R ! i ! j = map (\<lambda>i. map (\<lambda>j. if i < ih \<and> j < iw
                              then rows frame ! (nat y1 + i) ! (nat x1 + j) else black)
                       [0 ..< nat (width c)]) [0 ..< nat (height c)] ! i ! j"
          using i j iwn by (simp add: Rnth nth_append srowlen spix)
      qed
    qed
    then show ?thesis
      by (simp add: res spec)
  qed
qed

lemma extract_region_shape_in_range:
  assumes "wf_array frame" and "0 < width c" and "0 < height c"
    and "0 \<le> y c + height c" and "0 \<le> x c + width c"
  shows "\<exists>a. extract_region c frame = Inr a
           \<and> int (shape0 a) = height c \<and> int (shape1 a) = width c"
  using assms extract_region_in_range [of frame c]
  by (simp add: spec_extract_def Let_def)

text \<open>
  Claim C1 asks for the reference result on every frame and every region of positive
  size, and so for a black frame of the requested size when the region is wholly
  outside the frame. For the region of 2 rows and 2 columns at \<open>x = 0, y = -3\<close>, wholly
  above the frame, the stop of the row slice is \<open>-1\<close> and counts from the end: extraction
  returns the first three rows of the frame, cut to two columns, and not the black
  frame of 2 rows and 2 columns.
\<close>

theorem extract_region_above_frame:
  "0 < width above_config \<and> 0 < height above_config
   \<and> y above_config + height above_config < 0
   \<and> wf_array small_frame
   \<and> extract_region above_config small_frame =
       Inr \<lparr>shape0 = 3, shape1 = 2,
            rows = [[(1, 1, 1), (2, 2, 2)], [(4, 4, 4), (5, 5, 5)], [(7, 7, 7), (8, 8, 8)]]\<rparr>
   \<and> spec_extract above_config small_frame =
       \<lparr>shape0 = 2, shape1 = 2, rows = [[black, black], [black, black]]\<rparr>
   \<and> extract_region above_config small_frame \<noteq> Inr (spec_extract above_config small_frame)"
  by (simp add: extract_region_def spec_extract_def slice2_def py_slice_def slice_index_def
        above_config_def small_frame_def default_config_def wf_array_def Let_def
        numeral_2_eq_2)

text \<open>
  Claim C2 asks for a result of shape \<open>(height, width)\<close> for every region. For the region
  of 4 rows and 1 column at \<open>x = -2, y = 0\<close>, wholly left of the frame, the stop of the
  column slice is \<open>-1\<close>: extraction returns 4 rows of 2 columns. With 5 rows requested
  the padding step is reached and its assignment raises, so no frame is returned.
\<close>

theorem extract_region_wrong_shape:
  "height left_config = 4 \<and> width left_config = 1
   \<and> extract_region left_config small_frame =
       Inr \<lparr>shape0 = 4, shape1 = 2,
            rows = [[(1, 1, 1), (2, 2, 2)], [(4, 4, 4), (5, 5, 5)],
                    [(7, 7, 7), (8, 8, 8)], [(10, 10, 10), (11, 11, 11)]]\<rparr>
   \<and> height left_tall_config = 5 \<and> width left_tall_config = 1
   \<and> extract_region left_tall_config small_frame = Inl ValueError"
  by (simp add: extract_region_def slice2_def py_slice_def slice_index_def np_zeros_def
        assign_top_left_def left_config_def left_tall_config_def small_frame_def
        default_config_def Let_def)

end
